theory Spec2Isabelle
  imports Complex_Main
begin

section \<open>Time-series tables of mwlmc: index resolution, interpolation, extrapolation\<close>

text \<open>
  A shallow embedding of \<^verbatim>\<open>orient.h\<close> (the orientation table) and of
  \<^verbatim>\<open>sphcoefs.h\<close> (the coefficient table).

  Conventions of the embedding.
  \<^item> A C++ \<^verbatim>\<open>double\<close> (and the one \<^verbatim>\<open>float\<close>, \<^verbatim>\<open>dtime\<close>) is a
    \<^typ>\<open>real\<close>: arithmetic is exact, rounding is not modelled. Where IEEE arithmetic
    would leave the reals (a division by zero), the model returns an error value.
  \<^item> A C++ \<^verbatim>\<open>int\<close> is an \<^typ>\<open>int\<close>; the one place where the range matters, the
    cast \<^verbatim>\<open>(int) x\<close>, checks it.
  \<^item> \<^verbatim>\<open>vector<double>\<close> and \<^verbatim>\<open>multi_array\<close> are lists. The source indexes them
    with \<^verbatim>\<open>operator[]\<close>, which does not check the index: an access out of range is
    undefined behaviour, and it is the error \<open>OutOfBounds i\<close> of the model, carrying the
    offending index.
  \<^item> What the source prints on \<^verbatim>\<open>cerr\<close> or \<^verbatim>\<open>cout\<close> is returned as a list of
    diagnostics, in the order printed; \<^verbatim>\<open>exit\<close> is the error \<open>Exit code message\<close>.
  \<^item> The process-wide toggles \<^verbatim>\<open>backwards\<close>, \<^verbatim>\<open>backwardsaccel\<close> and
    \<^verbatim>\<open>havevelocity\<close> are the fields of a \<open>config\<close> record passed to every function
    that reads them.
  \<^item> The build modelled is the default one: \<^verbatim>\<open>SPLINEORIENT\<close> and \<^verbatim>\<open>DEBUGCOEFS\<close>
    are not defined.
\<close>

subsection \<open>Diagnostics and failures\<close>

datatype diag =
    CoefTimePriorToStart
      \<comment> \<open>"select_coefficient_time: time prior to simulation start selected. setting to earliest step."\<close>
  | CoefTimeAfterEnd
      \<comment> \<open>"select_coefficient_time: time after to simulation end selected. setting to latest step."\<close>
  | OrientTimeAfterEnd
      \<comment> \<open>"orient::find_time_index: time after to simulation end selected. setting to latest step."\<close>
  | CantExtrapolate
      \<comment> \<open>"orient::find_initial_velocity: can't extrapolate, given these times."\<close>
  | NoOrientFile
      \<comment> \<open>"orient::read_orient: no orient file detected . . . proceeding with inertial centre."\<close>
  | UnableToOpen
      \<comment> \<open>"orient::read_orient: unable to open specified file. exiting."\<close>

datatype error =
    OutOfBounds int   \<comment> \<open>an unchecked access at this index, outside the container\<close>
  | CastUB            \<comment> \<open>\<^verbatim>\<open>(int) x\<close> where the truncated \<open>x\<close> is no \<^verbatim>\<open>int\<close> (or \<open>x\<close> is not finite)\<close>
  | NonFinite         \<comment> \<open>a floating-point division by zero: the value is an infinity or a NaN\<close>
  | LengthError       \<comment> \<open>\<^verbatim>\<open>resize\<close> to a negative size\<close>
  | Exit int diag     \<comment> \<open>\<^verbatim>\<open>exit(code)\<close> after printing the message\<close>

definition ebind :: "error + 'a \<Rightarrow> ('a \<Rightarrow> error + 'b) \<Rightarrow> error + 'b" where
  "ebind m f = (case m of Inl e \<Rightarrow> Inl e | Inr x \<Rightarrow> f x)"

definition rd :: "'a list \<Rightarrow> int \<Rightarrow> error + 'a" where
  \<comment> \<open>\<^verbatim>\<open>xs[i]\<close> read\<close>
  "rd xs i = (if 0 \<le> i \<and> i < int (length xs) then Inr (xs ! nat i) else Inl (OutOfBounds i))"

definition wr :: "'a list \<Rightarrow> int \<Rightarrow> 'a \<Rightarrow> error + 'a list" where
  \<comment> \<open>\<^verbatim>\<open>xs[i] = v\<close>\<close>
  "wr xs i v = (if 0 \<le> i \<and> i < int (length xs) then Inr (xs[nat i := v]) else Inl (OutOfBounds i))"

definition assign3 :: "real list \<Rightarrow> error + real \<Rightarrow> error + real \<Rightarrow> error + real \<Rightarrow> error + real list" where
  \<comment> \<open>\<^verbatim>\<open>c[0] = ea; c[1] = eb; c[2] = ed;\<close> each right-hand side evaluated before its store\<close>
  "assign3 c ea eb ed =
     ebind ea (\<lambda>a. ebind (wr c 0 a) (\<lambda>c0.
     ebind eb (\<lambda>b. ebind (wr c0 1 b) (\<lambda>c1.
     ebind ed (\<lambda>d. wr c1 2 d)))))"

definition cast_int :: "real \<Rightarrow> error + int" where
  \<comment> \<open>\<^verbatim>\<open>(int) x\<close>: truncation toward zero, undefined when the result is not a 32-bit int\<close>
  "cast_int x =
     (let i = (if 0 \<le> x then \<lfloor>x\<rfloor> else \<lceil>x\<rceil>)
      in if - (2 ^ 31) \<le> i \<and> i < 2 ^ 31 then Inr i else Inl CastUB)"

definition fdiv :: "real \<Rightarrow> real \<Rightarrow> error + real" where
  \<comment> \<open>\<^verbatim>\<open>a / b\<close> on doubles\<close>
  "fdiv a b = (if b = 0 then Inl NonFinite else Inr (a / b))"

definition cast_quot :: "real \<Rightarrow> real \<Rightarrow> error + int" where
  \<comment> \<open>\<^verbatim>\<open>(int)(a / b)\<close>: the cast of an infinity or a NaN is undefined\<close>
  "cast_quot a b = (if b = 0 then Inl CastUB else cast_int (a / b))"

record config =
  backwards :: bool
  backwardsaccel :: bool
  havevelocity :: bool

definition default_config :: config where
  "default_config = \<lparr>backwards = False, backwardsaccel = False, havevelocity = True\<rparr>"

subsection \<open>The coefficient table\<close>

record SphCoefs =
  LMAX :: int
  NMAX :: int
  NUMT_coef :: int                \<comment> \<open>the field \<^verbatim>\<open>NUMT\<close> of \<^verbatim>\<open>SphCoefs\<close>\<close>
  t_coef :: "real list"           \<comment> \<open>the field \<^verbatim>\<open>t\<close>\<close>
  coefs :: "real list list list"  \<comment> \<open>indexed \<^verbatim>\<open>[time][harmonic][radial]\<close>\<close>

definition select_coefficient_index :: "real \<Rightarrow> SphCoefs \<Rightarrow> error + (int \<times> real \<times> diag list)" where
  \<comment> \<open>The head of \<^verbatim>\<open>select_coefficient_time\<close>: \<^verbatim>\<open>dt\<close>, \<^verbatim>\<open>indx\<close>, the two warnings,
      the two clamps.\<close>
  "select_coefficient_index desired_time coeftable =
     ebind (rd (t_coef coeftable) 1) (\<lambda>t1.
     ebind (rd (t_coef coeftable) 0) (\<lambda>t0.
     let dt = t1 - t0 in
     ebind (cast_quot (desired_time - t0) dt) (\<lambda>indx.
     let log = (if indx < 0 then [CoefTimePriorToStart] else []) @
               (if indx > NUMT_coef coeftable - 2 then [CoefTimeAfterEnd] else []);
         indx = (if indx < 0 then 0 else indx);
         indx = (if indx > NUMT_coef coeftable - 2 then NUMT_coef coeftable - 2 else indx)
     in Inr (indx, dt, log))))"

primrec emap :: "('a \<Rightarrow> error + 'b) \<Rightarrow> 'a list \<Rightarrow> error + 'b list" where
  \<comment> \<open>a \<^verbatim>\<open>for\<close> loop that fills one slot per iteration and stops at the first failure\<close>
  "emap f [] = Inr []"
| "emap f (x # xs) = ebind (f x) (\<lambda>y. ebind (emap f xs) (\<lambda>ys. Inr (y # ys)))"

definition select_coefficient_time :: "real \<Rightarrow> SphCoefs \<Rightarrow> error + (real list list \<times> diag list)" where
  "select_coefficient_time desired_time coeftable =
     ebind (select_coefficient_index desired_time coeftable) (\<lambda>(indx, dt, log).
     ebind (rd (t_coef coeftable) (indx + 1)) (\<lambda>ta.
     ebind (fdiv (ta - desired_time) dt) (\<lambda>x1.
     ebind (rd (t_coef coeftable) indx) (\<lambda>tb.
     ebind (fdiv (desired_time - tb) dt) (\<lambda>x2.
     let numl = (LMAX coeftable + 1) * (LMAX coeftable + 1) in
     ebind (emap (\<lambda>l. emap (\<lambda>n.
         ebind (rd (coefs coeftable) indx) (\<lambda>g0. ebind (rd g0 l) (\<lambda>r0. ebind (rd r0 n) (\<lambda>a.
         ebind (rd (coefs coeftable) (indx + 1)) (\<lambda>g1. ebind (rd g1 l) (\<lambda>r1. ebind (rd r1 n) (\<lambda>b.
         Inr (x1 * a + x2 * b))))))))
       [0 .. NMAX coeftable - 1]) [0 .. numl - 1])
       (\<lambda>coefs_at_time. Inr (coefs_at_time, log)))))))"

subsection \<open>The orientation table\<close>

record SphOrient =
  inertial :: bool
  eventime :: bool
  NUMT :: int
  time :: "real list"
  xcen :: "real list"
  ycen :: "real list"
  zcen :: "real list"
  ucen :: "real list"
  vcen :: "real list"
  wcen :: "real list"
  zerotimevelocities :: "real list"
  zerotimeintercepts :: "real list"

definition new_SphOrient :: "int \<Rightarrow> SphOrient" where
  \<comment> \<open>A default-constructed \<^verbatim>\<open>SphOrient\<close>: the two flags true, every vector empty.
      \<^verbatim>\<open>NUMT\<close> has no initialiser; its value is the parameter.\<close>
  "new_SphOrient n =
     \<lparr>inertial = True, eventime = True, NUMT = n, time = [], xcen = [], ycen = [], zcen = [],
      ucen = [], vcen = [], wcen = [], zerotimevelocities = [], zerotimeintercepts = []\<rparr>"

function find_time_index_loop :: "real \<Rightarrow> real list \<Rightarrow> int \<Rightarrow> error + int" where
  \<comment> \<open>\<^verbatim>\<open>while (orient.time[indx]<=desired_time) indx++;\<close> the value is the final \<^verbatim>\<open>indx\<close>\<close>
  "find_time_index_loop desired_time ts indx =
     (if 0 \<le> indx \<and> indx < int (length ts)
      then (if ts ! nat indx \<le> desired_time
            then find_time_index_loop desired_time ts (indx + 1)
            else Inr indx)
      else Inl (OutOfBounds indx))"
  by pat_completeness auto
termination
  by (relation "measure (\<lambda>(q, ts, indx). nat (int (length ts) - indx))") auto

declare find_time_index_loop.simps [simp del]

definition find_time_index :: "real \<Rightarrow> SphOrient \<Rightarrow> error + (int \<times> real \<times> diag list)" where
  "find_time_index desired_time orient =
     ebind (find_time_index_loop desired_time (time orient) 0) (\<lambda>indx.
     let indx = indx - 1;
         log = (if indx > NUMT orient - 2 then [OrientTimeAfterEnd] else []);
         indx = (if indx < 0 then 0 else indx);
         indx = (if indx > NUMT orient - 2 then NUMT orient - 2 else indx)
     in ebind (rd (time orient) (indx + 1)) (\<lambda>ta.
        ebind (rd (time orient) indx) (\<lambda>tb.
        Inr (indx, ta - tb, log))))"

definition orient_time_index :: "real \<Rightarrow> SphOrient \<Rightarrow> error + (int \<times> real \<times> diag list)" where
  \<comment> \<open>The head shared by \<^verbatim>\<open>interpolate_centre\<close> and \<^verbatim>\<open>interpolate_velocity_centre\<close>:
      \<^verbatim>\<open>if (orient.eventime) {...} else {find_time_index(...)}\<close>\<close>
  "orient_time_index desired_time orient =
     (if eventime orient
      then ebind (rd (time orient) 1) (\<lambda>t1.
           ebind (rd (time orient) 0) (\<lambda>t0.
           let dt = t1 - t0 in
           ebind (cast_quot (desired_time - t0) dt) (\<lambda>indx. Inr (indx, dt, []))))
      else find_time_index desired_time orient)"

definition blend :: "real \<Rightarrow> real \<Rightarrow> real list \<Rightarrow> int \<Rightarrow> error + real" where
  \<comment> \<open>\<^verbatim>\<open>x1*s[indx] + x2*s[indx+1]\<close>\<close>
  "blend x1 x2 s indx = ebind (rd s indx) (\<lambda>a. ebind (rd s (indx + 1)) (\<lambda>b. Inr (x1 * a + x2 * b)))"

definition standard_mode ::
  "real \<Rightarrow> SphOrient \<Rightarrow> int \<Rightarrow> real \<Rightarrow> real list \<Rightarrow> real list \<Rightarrow> real list \<Rightarrow> real list \<Rightarrow> error + real list" where
  \<comment> \<open>The \<^verbatim>\<open>else\<close> branch of both evaluators, on the three series given.\<close>
  "standard_mode desired_time orient indx dt s0 s1 s2 out =
     (let indx = (if indx > NUMT orient - 2 then NUMT orient - 2 else indx) in
      ebind (rd (time orient) (indx + 1)) (\<lambda>ta.
      ebind (fdiv (ta - desired_time) dt) (\<lambda>x1.
      ebind (rd (time orient) indx) (\<lambda>tb.
      ebind (fdiv (desired_time - tb) dt) (\<lambda>x2.
      assign3 out (blend x1 x2 s0 indx) (blend x1 x2 s1 indx) (blend x1 x2 s2 indx))))))"

definition accel_term :: "SphOrient \<Rightarrow> real \<Rightarrow> int \<Rightarrow> error + real" where
  \<comment> \<open>\<^verbatim>\<open>orient.zerotimevelocities[k]*dtime + orient.zerotimeintercepts[k]\<close>\<close>
  "accel_term orient dtime k =
     ebind (rd (zerotimevelocities orient) k) (\<lambda>v.
     ebind (rd (zerotimeintercepts orient) k) (\<lambda>b. Inr (v * dtime + b)))"

definition interpolate_centre ::
  "config \<Rightarrow> real \<Rightarrow> SphOrient \<Rightarrow> real list \<Rightarrow> error + (real list \<times> diag list)" where
  "interpolate_centre cfg desired_time orient centre =
     ebind (orient_time_index desired_time orient) (\<lambda>(indx, dt, log).
     ebind
       (if havevelocity cfg \<and> indx < 0
        then ebind (rd (time orient) 0) (\<lambda>t0.
             let dtime = desired_time - t0 in
             if backwardsaccel cfg
             then assign3 centre
                    (ebind (rd (xcen orient) 0) (\<lambda>c. ebind (accel_term orient dtime 0) (\<lambda>a. Inr (c + dtime * a))))
                    (ebind (rd (ycen orient) 0) (\<lambda>c. ebind (accel_term orient dtime 1) (\<lambda>a. Inr (c + dtime * a))))
                    (ebind (rd (zcen orient) 0) (\<lambda>c. ebind (accel_term orient dtime 2) (\<lambda>a. Inr (c + dtime * a))))
             else assign3 centre
                    (ebind (rd (xcen orient) 0) (\<lambda>c. ebind (rd (zerotimevelocities orient) 0) (\<lambda>v. Inr (c + dtime * v))))
                    (ebind (rd (ycen orient) 0) (\<lambda>c. ebind (rd (zerotimevelocities orient) 1) (\<lambda>v. Inr (c + dtime * v))))
                    (ebind (rd (zcen orient) 0) (\<lambda>c. ebind (rd (zerotimevelocities orient) 2) (\<lambda>v. Inr (c + dtime * v)))))
        else standard_mode desired_time orient indx dt (xcen orient) (ycen orient) (zcen orient) centre)
       (\<lambda>centre'. Inr (centre', log)))"

definition interpolate_velocity_centre ::
  "config \<Rightarrow> real \<Rightarrow> SphOrient \<Rightarrow> real list \<Rightarrow> error + (real list \<times> diag list)" where
  "interpolate_velocity_centre cfg desired_time orient velcentre =
     ebind (orient_time_index desired_time orient) (\<lambda>(indx, dt, log).
     ebind
       (if indx < 0
        then (if backwardsaccel cfg
              then ebind (rd (time orient) 0) (\<lambda>t0.
                   let dtime = desired_time - t0 in
                   assign3 velcentre (accel_term orient dtime 0) (accel_term orient dtime 1)
                     (accel_term orient dtime 2))
              else assign3 velcentre (rd (zerotimevelocities orient) 0)
                     (rd (zerotimevelocities orient) 1) (rd (zerotimevelocities orient) 2))
        else standard_mode desired_time orient indx dt (ucen orient) (vcen orient) (wcen orient) velcentre)
       (\<lambda>velcentre'. Inr (velcentre', log)))"

definition return_centre ::
  "config \<Rightarrow> real \<Rightarrow> SphOrient \<Rightarrow> real list \<Rightarrow> error + (real list \<times> diag list)" where
  "return_centre cfg desired_time orient centre =
     (if inertial orient
      then ebind (assign3 centre (Inr 0) (Inr 0) (Inr 0)) (\<lambda>centre'. Inr (centre', []))
      else interpolate_centre cfg desired_time orient centre)"

definition return_vel_centre ::
  "config \<Rightarrow> real \<Rightarrow> SphOrient \<Rightarrow> real list \<Rightarrow> error + (real list \<times> diag list)" where
  "return_vel_centre cfg desired_time orient velcentre =
     (if inertial orient
      then ebind (assign3 velcentre (Inr 0) (Inr 0) (Inr 0)) (\<lambda>velcentre'. Inr (velcentre', []))
      else interpolate_velocity_centre cfg desired_time orient velcentre)"

subsection \<open>The regression over the leading samples\<close>

record regsums =
  sumT :: real
  sumX :: real
  sumY :: real
  sumZ :: real
  sumTX :: real
  sumTY :: real
  sumTZ :: real
  sumT2 :: real

definition zero_sums :: regsums where
  "zero_sums = \<lparr>sumT = 0, sumX = 0, sumY = 0, sumZ = 0, sumTX = 0, sumTY = 0, sumTZ = 0, sumT2 = 0\<rparr>"

definition sums_step :: "real list \<Rightarrow> real list \<Rightarrow> real list \<Rightarrow> real list \<Rightarrow> int \<Rightarrow> regsums \<Rightarrow> error + regsums" where
  \<comment> \<open>The body of the summation loop of \<^verbatim>\<open>find_initial_velocity\<close>, at index \<open>i\<close>.\<close>
  "sums_step ts xterm yterm zterm i s =
     ebind (rd ts i) (\<lambda>t.
     ebind (rd xterm i) (\<lambda>x.
     ebind (rd yterm i) (\<lambda>y.
     ebind (rd zterm i) (\<lambda>z.
     Inr \<lparr>sumT = sumT s + t, sumX = sumX s + x, sumY = sumY s + y, sumZ = sumZ s + z,
          sumTX = sumTX s + t * x, sumTY = sumTY s + t * y, sumTZ = sumTZ s + t * z,
          sumT2 = sumT2 s + t * t\<rparr>))))"

function sums_loop ::
  "real list \<Rightarrow> real list \<Rightarrow> real list \<Rightarrow> real list \<Rightarrow> int \<Rightarrow> int \<Rightarrow> regsums \<Rightarrow> error + regsums" where
  \<comment> \<open>\<^verbatim>\<open>for(int i=0; i<nPoints; i++) {...}\<close> from \<open>i\<close> on\<close>
  "sums_loop ts xterm yterm zterm nPoints i s =
     (if i < nPoints
      then (case sums_step ts xterm yterm zterm i s of
              Inl e \<Rightarrow> Inl e
            | Inr s' \<Rightarrow> sums_loop ts xterm yterm zterm nPoints (i + 1) s')
      else Inr s)"
  by pat_completeness auto
termination
  by (relation "measure (\<lambda>(ts, xterm, yterm, zterm, nPoints, i, s). nat (nPoints - i))") auto

declare sums_loop.simps [simp del]

definition regression :: "SphOrient \<Rightarrow> bool \<Rightarrow> int \<Rightarrow> regsums \<Rightarrow> error + SphOrient" where
  \<comment> \<open>\<^verbatim>\<open>find_initial_velocity\<close> after its loop: the means, the guard on the
      denominator, the slopes and the intercepts.
      \<^verbatim>\<open>nPoints = 0\<close> makes the means \<^verbatim>\<open>0.0/0\<close>, a NaN that the guard lets through and the
      table then stores: \<open>NonFinite\<close>.\<close>
  "regression orient accel nPoints s =
     (if nPoints = 0 then Inl NonFinite else
      let tMean = sumT s / real_of_int nPoints;
          xMean = sumX s / real_of_int nPoints;
          yMean = sumY s / real_of_int nPoints;
          zMean = sumZ s / real_of_int nPoints;
          denominator = sumT2 s - sumT s * tMean
      in if \<bar>denominator\<bar> < 1 / 10 ^ 7 then Inl (Exit (- 1) CantExtrapolate) else
         let v0 = (sumTX s - sumT s * xMean) / denominator;
             v1 = (sumTY s - sumT s * yMean) / denominator;
             v2 = (sumTZ s - sumT s * zMean) / denominator
         in ebind (assign3 (zerotimevelocities orient) (Inr v0) (Inr v1) (Inr v2)) (\<lambda>zv.
            if accel
            then ebind (assign3 (zerotimeintercepts orient)
                          (Inr (xMean - v0 * tMean)) (Inr (yMean - v1 * tMean)) (Inr (zMean - v2 * tMean)))
                   (\<lambda>zi. Inr (orient\<lparr>zerotimevelocities := zv, zerotimeintercepts := zi\<rparr>))
            else Inr (orient\<lparr>zerotimevelocities := zv\<rparr>)))"

definition find_initial_velocity :: "SphOrient \<Rightarrow> bool \<Rightarrow> int \<Rightarrow> error + SphOrient" where
  "find_initial_velocity orient accel nPoints =
     (let xterm = (if accel then ucen orient else xcen orient);
          yterm = (if accel then vcen orient else ycen orient);
          zterm = (if accel then wcen orient else zcen orient)
      in ebind (sums_loop (time orient) xterm yterm zterm nPoints 0 zero_sums)
           (regression orient accel nPoints))"

subsection \<open>Loading an orientation file\<close>

text \<open>
  The tokenizer is outside the model. An opened file is its first line, the integer
  \<^verbatim>\<open>NUMT\<close>, and its data lines, each the list of the numbers that
  \<^verbatim>\<open>operator>>\<close> extracts from it in order. An extraction that finds no number stores
  0 in its target and fails the line's stream, so the targets after it keep their values.
\<close>

record orient_text =
  header :: int
  rows :: "real list list"

definition resize :: "int \<Rightarrow> real list \<Rightarrow> error + real list" where
  \<comment> \<open>\<^verbatim>\<open>v.resize(n)\<close>: truncates, or pads with zeros\<close>
  "resize n xs = (if n < 0 then Inl LengthError
                  else Inr (take (nat n) xs @ replicate (nat n - length xs) 0))"

definition tok :: "real list \<Rightarrow> nat \<Rightarrow> real \<Rightarrow> real" where
  \<comment> \<open>what the \<open>k\<close>-th extraction of a line leaves in a target that held \<open>old\<close>\<close>
  "tok row k old = (if k < length row then row ! k else if k = length row then 0 else old)"

definition store :: "real list \<Rightarrow> int \<Rightarrow> real list \<Rightarrow> nat \<Rightarrow> error + real list" where
  \<comment> \<open>\<^verbatim>\<open>ss >> xs[i]\<close> as the \<open>k\<close>-th extraction of the line\<close>
  "store xs i row k = ebind (rd xs i) (\<lambda>old. wr xs i (tok row k old))"

definition read_row :: "config \<Rightarrow> SphOrient \<Rightarrow> int \<Rightarrow> real list \<Rightarrow> error + SphOrient" where
  \<comment> \<open>a data line, \<^verbatim>\<open>linenum > 0\<close>\<close>
  "read_row cfg orient linenum row =
     ebind (store (time orient) (linenum - 1) row 0) (\<lambda>t'.
     ebind (store (xcen orient) (linenum - 1) row 1) (\<lambda>x'.
     ebind (store (ycen orient) (linenum - 1) row 2) (\<lambda>y'.
     ebind (store (zcen orient) (linenum - 1) row 3) (\<lambda>z'.
     if havevelocity cfg
     then ebind (store (ucen orient) (linenum - 1) row 4) (\<lambda>u'.
          ebind (store (vcen orient) (linenum - 1) row 5) (\<lambda>v'.
          ebind (store (wcen orient) (linenum - 1) row 6) (\<lambda>w'.
          Inr (orient\<lparr>time := t', xcen := x', ycen := y', zcen := z',
                      ucen := u', vcen := v', wcen := w'\<rparr>))))
     else Inr (orient\<lparr>time := t', xcen := x', ycen := y', zcen := z'\<rparr>)))))"

primrec read_rows :: "config \<Rightarrow> SphOrient \<Rightarrow> int \<Rightarrow> real list list \<Rightarrow> error + SphOrient" where
  \<comment> \<open>the \<^verbatim>\<open>getline\<close> loop after the first line\<close>
  "read_rows cfg orient linenum [] = Inr orient"
| "read_rows cfg orient linenum (row # rest) =
     ebind (read_row cfg orient linenum row) (\<lambda>orient'. read_rows cfg orient' (linenum + 1) rest)"

definition read_header :: "config \<Rightarrow> SphOrient \<Rightarrow> int \<Rightarrow> error + SphOrient" where
  \<comment> \<open>the first line, \<^verbatim>\<open>linenum == 0\<close>\<close>
  "read_header cfg orient n =
     ebind (resize n (time orient)) (\<lambda>t'.
     ebind (resize n (xcen orient)) (\<lambda>x'.
     ebind (resize n (ycen orient)) (\<lambda>y'.
     ebind (resize n (zcen orient)) (\<lambda>z'.
     if havevelocity cfg
     then ebind (resize n (ucen orient)) (\<lambda>u'.
          ebind (resize n (vcen orient)) (\<lambda>v'.
          ebind (resize n (wcen orient)) (\<lambda>w'.
          Inr (orient\<lparr>NUMT := n, time := t', xcen := x', ycen := y', zcen := z',
                      ucen := u', vcen := v', wcen := w'\<rparr>))))
     else Inr (orient\<lparr>NUMT := n, time := t', xcen := x', ycen := y', zcen := z'\<rparr>)))))"

function eventime_loop :: "real list \<Rightarrow> int \<Rightarrow> real \<Rightarrow> int \<Rightarrow> bool \<Rightarrow> error + bool" where
  \<comment> \<open>\<^verbatim>\<open>for (int i=2;i<orient.NUMT;i++) if (abs(...) > dt/10) orient.eventime = false;\<close>
      from \<open>i\<close> on; the value is the final flag\<close>
  "eventime_loop ts n dt i flag =
     (if i < n
      then (case rd ts i of Inl e \<Rightarrow> Inl e | Inr a \<Rightarrow>
           (case rd ts (i - 1) of Inl e \<Rightarrow> Inl e | Inr b \<Rightarrow>
              eventime_loop ts n dt (i + 1) (if \<bar>a - b - dt\<bar> > dt / 10 then False else flag)))
      else Inr flag)"
  by pat_completeness auto
termination
  by (relation "measure (\<lambda>(ts, n, dt, i, flag). nat (n - i))") auto

declare eventime_loop.simps [simp del]

definition read_series :: "config \<Rightarrow> orient_text \<Rightarrow> SphOrient \<Rightarrow> error + SphOrient" where
  \<comment> \<open>\<^verbatim>\<open>read_orient\<close> from \<^verbatim>\<open>orient.inertial = false\<close> to the end of the spacing check\<close>
  "read_series cfg f orient =
     (let orient = orient\<lparr>inertial := False\<rparr> in
      ebind (read_header cfg orient (header f)) (\<lambda>orient.
      ebind (read_rows cfg orient 1 (rows f)) (\<lambda>orient.
      ebind (rd (time orient) 1) (\<lambda>t1.
      ebind (rd (time orient) 0) (\<lambda>t0.
      let dt = t1 - t0 in
      ebind (eventime_loop (time orient) (NUMT orient) dt 2 (eventime orient)) (\<lambda>ev.
      Inr (orient\<lparr>eventime := ev\<rparr>)))))))"

definition zero_time_fit :: "config \<Rightarrow> SphOrient \<Rightarrow> error + SphOrient" where
  \<comment> \<open>the tail of \<^verbatim>\<open>read_orient\<close>, \<^verbatim>\<open>if (havevelocity) {...}\<close>;
      \<^verbatim>\<open>find_initial_velocity\<close> is called with its default \<^verbatim>\<open>nPoints=2000\<close>\<close>
  "zero_time_fit cfg orient =
     (if havevelocity cfg
      then ebind (resize 3 (zerotimevelocities orient)) (\<lambda>zv.
           let orient = orient\<lparr>zerotimevelocities := zv\<rparr> in
           if backwards cfg
           then (if backwardsaccel cfg
                 then ebind (resize 3 (zerotimeintercepts orient)) (\<lambda>zi.
                      find_initial_velocity (orient\<lparr>zerotimeintercepts := zi\<rparr>) True 2000)
                 else find_initial_velocity orient False 2000)
           else ebind (assign3 (zerotimevelocities orient)
                         (rd (ucen orient) 0) (rd (vcen orient) 0) (rd (wcen orient) 0))
                  (\<lambda>zv. Inr (orient\<lparr>zerotimevelocities := zv\<rparr>)))
      else Inr orient)"

definition read_orient ::
  "config \<Rightarrow> string \<Rightarrow> orient_text option \<Rightarrow> SphOrient \<Rightarrow> error + (SphOrient \<times> diag list)" where
  \<comment> \<open>\<open>infile\<close> is what opening \<open>orient_file\<close> gives: \<open>None\<close> when it cannot be opened.\<close>
  "read_orient cfg orient_file infile orient =
     (if orient_file = [] then Inr (orient, [NoOrientFile]) else
      case infile of
        None \<Rightarrow> Inl (Exit 1 UnableToOpen)
      | Some f \<Rightarrow>
          ebind (read_series cfg f orient) (\<lambda>orient.
          ebind (zero_time_fit cfg orient) (\<lambda>orient.
          Inr (orient, []))))"

subsection \<open>The claims' own notions\<close>

definition evenly_spaced :: "real list \<Rightarrow> bool" where
  \<comment> \<open>Every spacing \<open>T[i] - T[i-1]\<close>, \<open>2 \<le> i \<le> n-1\<close>, is within \<open>dt/10\<close> of the first
      spacing \<open>dt = T[1] - T[0]\<close>.\<close>
  "evenly_spaced T =
     (\<forall>i \<in> {2 ..< length T}. \<bar>T ! i - T ! (i - 1) - (T ! 1 - T ! 0)\<bar> \<le> (T ! 1 - T ! 0) / 10)"


subsection \<open>Auxiliary notions for the loader\<close>

definition sized :: "config \<Rightarrow> nat \<Rightarrow> SphOrient \<Rightarrow> bool" where
  \<comment> \<open>every series the configuration uses has \<open>N = NUMT\<close> elements\<close>
  "sized cfg N orient =
     (NUMT orient = int N \<and> length (time orient) = N \<and> length (xcen orient) = N \<and>
      length (ycen orient) = N \<and> length (zcen orient) = N \<and>
      (havevelocity cfg \<longrightarrow>
         length (ucen orient) = N \<and> length (vcen orient) = N \<and> length (wcen orient) = N))"

definition same_rest :: "SphOrient \<Rightarrow> SphOrient \<Rightarrow> bool" where
  \<comment> \<open>the fields that parsing the lines leaves alone\<close>
  "same_rest orient orient' =
     (eventime orient' = eventime orient \<and> inertial orient' = inertial orient \<and>
      zerotimevelocities orient' = zerotimevelocities orient \<and>
      zerotimeintercepts orient' = zerotimeintercepts orient)"

subsection \<open>Example tables\<close>

text \<open>
  A one-coefficient table on the time axis \<open>[0, 1, 2]\<close> with values \<open>[0, 10, 20]\<close>; two
  orientation files of three lines with velocity columns, one on the even axis
  \<open>[0, 1, 2]\<close> and one on the uneven axis \<open>[0, 1, 2.5]\<close>, and the tables that loading
  them under the default configuration gives; an orientation file whose six series are
  all \<open>[0, 10, 20]\<close>, and its table.
\<close>

definition coef_example :: SphCoefs where
  "coef_example = \<lparr>LMAX = 0, NMAX = 1, NUMT_coef = 3, t_coef = [0, 1, 2],
                    coefs = [[[0]], [[10]], [[20]]]\<rparr>"

definition slope_file :: orient_text where
  "slope_file = \<lparr>header = 3,
                   rows = [[0, 0, 0, 0, 3, 3, 3], [1, 10, 10, 10, 5, 5, 5], [2, 20, 20, 20, 7, 7, 7]]\<rparr>"

definition slope_table :: SphOrient where
  "slope_table =
     \<lparr>inertial = False, eventime = True, NUMT = 3, time = [0, 1, 2],
      xcen = [0, 10, 20], ycen = [0, 10, 20], zcen = [0, 10, 20],
      ucen = [3, 5, 7], vcen = [3, 5, 7], wcen = [3, 5, 7],
      zerotimevelocities = [3, 3, 3], zerotimeintercepts = []\<rparr>"

definition uneven_file :: orient_text where
  "uneven_file = \<lparr>header = 3,
                   rows = [[0, 0, 0, 0, 3, 3, 3], [1, 10, 10, 10, 5, 5, 5], [5 / 2, 20, 20, 20, 7, 7, 7]]\<rparr>"

definition uneven_table :: SphOrient where
  "uneven_table =
     \<lparr>inertial = False, eventime = False, NUMT = 3, time = [0, 1, 5 / 2],
      xcen = [0, 10, 20], ycen = [0, 10, 20], zcen = [0, 10, 20],
      ucen = [3, 5, 7], vcen = [3, 5, 7], wcen = [3, 5, 7],
      zerotimevelocities = [3, 3, 3], zerotimeintercepts = []\<rparr>"

definition series_file :: orient_text where
  "series_file = \<lparr>header = 3,
                   rows = [[0, 0, 0, 0, 0, 0, 0], [1, 10, 10, 10, 10, 10, 10], [2, 20, 20, 20, 20, 20, 20]]\<rparr>"

definition series_table :: SphOrient where
  "series_table =
     \<lparr>inertial = False, eventime = True, NUMT = 3, time = [0, 1, 2],
      xcen = [0, 10, 20], ycen = [0, 10, 20], zcen = [0, 10, 20],
      ucen = [0, 10, 20], vcen = [0, 10, 20], wcen = [0, 10, 20],
      zerotimevelocities = [0, 0, 0], zerotimeintercepts = []\<rparr>"

definition no_velocity_config :: config where
  "no_velocity_config = \<lparr>backwards = False, backwardsaccel = False, havevelocity = False\<rparr>"

definition backwards_config :: config where
  "backwards_config = \<lparr>backwards = True, backwardsaccel = False, havevelocity = True\<rparr>"

definition even4_file :: orient_text where
  "even4_file = \<lparr>header = 4,
                   rows = [[0, 0, 0, 0, 3, 3, 3], [1, 10, 10, 10, 5, 5, 5], [2, 20, 20, 20, 7, 7, 7],
                           [3, 30, 30, 30, 9, 9, 9]]\<rparr>"



section \<open>Properties\<close>

subsection \<open>Basic facts\<close>

lemma ebind_Inr [simp]: "ebind (Inr x) f = f x"
  by (simp add: ebind_def)

lemma ebind_Inl [simp]: "ebind (Inl e) f = Inl e"
  by (simp add: ebind_def)

lemma rd_in_range: "i < length xs \<Longrightarrow> rd xs (int i) = Inr (xs ! i)"
  by (simp add: rd_def)

lemma loop_stops:
  "k < length ts \<Longrightarrow> desired_time < ts ! k \<Longrightarrow> i \<le> k \<Longrightarrow>
   (\<And>j. i \<le> j \<Longrightarrow> j < k \<Longrightarrow> ts ! j \<le> desired_time) \<Longrightarrow>
   find_time_index_loop desired_time ts (int i) = Inr (int k)"
proof (induction "k - i" arbitrary: i)
  case 0
  then have "i = k" by simp
  with 0 show ?case
    by (subst find_time_index_loop.simps) simp
next
  case (Suc d)
  then have lt: "i < k" by simp
  with Suc.prems have le: "ts ! i \<le> desired_time" by simp
  have step: "find_time_index_loop desired_time ts (int i) = find_time_index_loop desired_time ts (int (Suc i))"
    using lt Suc.prems(1) le
    by (subst find_time_index_loop.simps) (simp add: add.commute)
  have "find_time_index_loop desired_time ts (int (Suc i)) = Inr (int k)"
    using Suc.hyps(2) lt Suc.prems by (intro Suc.hyps(1)) auto
  with step show ?case by simp
qed

lemma loop_overruns:
  "i \<le> length ts \<Longrightarrow> (\<And>j. i \<le> j \<Longrightarrow> j < length ts \<Longrightarrow> ts ! j \<le> desired_time) \<Longrightarrow>
   find_time_index_loop desired_time ts (int i) = Inl (OutOfBounds (int (length ts)))"
proof (induction "length ts - i" arbitrary: i)
  case 0
  then have "i = length ts" by simp
  then show ?case
    by (subst find_time_index_loop.simps) simp
next
  case (Suc d)
  then have lt: "i < length ts" by simp
  with Suc.prems have le: "ts ! i \<le> desired_time" by simp
  have step: "find_time_index_loop desired_time ts (int i) = find_time_index_loop desired_time ts (int (Suc i))"
    using lt le
    by (subst find_time_index_loop.simps) (simp add: add.commute)
  have "find_time_index_loop desired_time ts (int (Suc i)) = Inl (OutOfBounds (int (length ts)))"
    using Suc.hyps(2) lt Suc.prems by (intro Suc.hyps(1)) auto
  with step show ?case by simp
qed

lemmas load_simps = read_orient_def read_series_def zero_time_fit_def read_header_def resize_def read_row_def store_def tok_def
  rd_def wr_def assign3_def eventime_loop.simps new_SphOrient_def default_config_def Let_def
  numeral_3_eq_3

lemmas eval_simps = interpolate_centre_def interpolate_velocity_centre_def orient_time_index_def
  find_time_index_def find_time_index_loop.simps standard_mode_def blend_def accel_term_def
  fdiv_def rd_def wr_def assign3_def default_config_def Let_def

lemma slope_table_loaded:
  "read_orient default_config ''orient.txt'' (Some slope_file) (new_SphOrient n) = Inr (slope_table, [])"
  by (simp add: load_simps slope_file_def slope_table_def)

lemma uneven_table_loaded:
  "read_orient default_config ''orient.txt'' (Some uneven_file) (new_SphOrient n) = Inr (uneven_table, [])"
  by (simp add: load_simps uneven_file_def uneven_table_def)

lemma series_table_loaded:
  "read_orient default_config ''orient.txt'' (Some series_file) (new_SphOrient n) = Inr (series_table, [])"
  by (simp add: load_simps series_file_def series_table_def)

lemma cast_int_neg_fraction: "- 1 < x \<Longrightarrow> x < 0 \<Longrightarrow> cast_int x = Inr 0"
proof -
  assume a: "- 1 < x" "x < 0"
  then have "\<lceil>x\<rceil> = 0" by (simp add: ceiling_eq_iff)
  with a show ?thesis by (simp add: cast_int_def)
qed

lemma cast_quot_neg_fraction: "- 1 < a / b \<Longrightarrow> a / b < 0 \<Longrightarrow> cast_quot a b = Inr 0"
  by (auto simp: cast_quot_def cast_int_neg_fraction)

lemma cast_int_of_int: "- (2 ^ 31) \<le> k \<Longrightarrow> k < 2 ^ 31 \<Longrightarrow> cast_int (of_int k) = Inr k"
  by (simp add: cast_int_def)

lemma cast_int_minus_one: "cast_int (- 1) = Inr (- 1)"
  using cast_int_of_int [of "- 1"] by simp

lemma sums_step_in_range:
  assumes "i < length ts" "i < length xterm" "i < length yterm" "i < length zterm"
  shows "sums_step ts xterm yterm zterm (int i) s =
     Inr \<lparr>sumT = sumT s + ts ! i, sumX = sumX s + xterm ! i, sumY = sumY s + yterm ! i,
          sumZ = sumZ s + zterm ! i, sumTX = sumTX s + ts ! i * xterm ! i,
          sumTY = sumTY s + ts ! i * yterm ! i, sumTZ = sumTZ s + ts ! i * zterm ! i,
          sumT2 = sumT2 s + ts ! i * ts ! i\<rparr>"
  using assms by (simp add: sums_step_def rd_def)

lemma sums_loop_overruns:
  assumes "length ts \<le> length xterm" "length ts \<le> length yterm" "length ts \<le> length zterm"
    and "int (length ts) < nPoints" and "i \<le> length ts"
  shows "sums_loop ts xterm yterm zterm nPoints (int i) s = Inl (OutOfBounds (int (length ts)))"
  using assms(5)
proof (induction "length ts - i" arbitrary: i s)
  case 0
  then have "i = length ts" by simp
  then show ?case
    using assms(4) by (subst sums_loop.simps) (simp add: sums_step_def rd_def)
next
  case (Suc d)
  then have lt: "i < length ts" by simp
  have step: "sums_loop ts xterm yterm zterm nPoints (int i) s =
      sums_loop ts xterm yterm zterm nPoints (int (Suc i))
        \<lparr>sumT = sumT s + ts ! i, sumX = sumX s + xterm ! i, sumY = sumY s + yterm ! i,
          sumZ = sumZ s + zterm ! i, sumTX = sumTX s + ts ! i * xterm ! i,
          sumTY = sumTY s + ts ! i * yterm ! i, sumTZ = sumTZ s + ts ! i * zterm ! i,
          sumT2 = sumT2 s + ts ! i * ts ! i\<rparr>"
    using lt assms(1-4)
    by (subst sums_loop.simps) (simp add: sums_step_in_range add.commute)
  show ?case
    unfolding step using Suc.hyps(2) lt by (intro Suc.hyps(1)) auto
qed

subsection \<open>The loader on a file with as many lines as its header says\<close>

lemma length_resize: "0 \<le> n \<Longrightarrow> resize n xs = Inr ys \<Longrightarrow> length ys = nat n"
  by (auto simp: resize_def)

lemma resize_Inr: "0 \<le> n \<Longrightarrow> \<exists>ys. resize n xs = Inr ys \<and> length ys = nat n"
  by (auto simp: resize_def)

lemma read_header_ok:
  assumes "0 \<le> n"
  shows "\<exists>orient'. read_header cfg orient n = Inr orient' \<and> sized cfg (nat n) orient' \<and>
           same_rest orient orient'"
proof (cases "havevelocity cfg")
  case True
  with assms show ?thesis
    by (auto simp: read_header_def resize_def sized_def same_rest_def)
next
  case False
  with assms show ?thesis
    by (auto simp: read_header_def resize_def sized_def same_rest_def)
qed

lemma store_ok: "k < length xs \<Longrightarrow> row \<noteq> [] \<Longrightarrow> store xs (int k) row 0 = Inr (xs[k := hd row])"
  by (simp add: store_def rd_def wr_def tok_def hd_conv_nth)

lemma store_length: "k < length xs \<Longrightarrow> \<exists>ys. store xs (int k) row c = Inr ys \<and> length ys = length xs"
  by (simp add: store_def rd_def wr_def)

lemma read_row_ok:
  assumes sz: "sized cfg N orient" and k: "k < N" and row: "row \<noteq> []"
  shows "\<exists>orient'. read_row cfg orient (int k + 1) row = Inr orient' \<and> sized cfg N orient' \<and>
           same_rest orient orient' \<and> time orient' = (time orient)[k := hd row]"
proof -
  from sz k have lt: "k < length (time orient)" "k < length (xcen orient)"
      "k < length (ycen orient)" "k < length (zcen orient)"
    by (simp_all add: sized_def)
  obtain x' where x': "store (xcen orient) (int k) row 1 = Inr x'" "length x' = length (xcen orient)"
    using store_length [OF lt(2)] by blast
  obtain y' where y': "store (ycen orient) (int k) row 2 = Inr y'" "length y' = length (ycen orient)"
    using store_length [OF lt(3)] by blast
  obtain z' where z': "store (zcen orient) (int k) row 3 = Inr z'" "length z' = length (zcen orient)"
    using store_length [OF lt(4)] by blast
  show ?thesis
  proof (cases "havevelocity cfg")
    case False
    then show ?thesis
      using sz x' y' z' store_ok [OF lt(1) row]
      by (simp add: read_row_def sized_def same_rest_def)
  next
    case True
    with sz k have lv: "k < length (ucen orient)" "k < length (vcen orient)" "k < length (wcen orient)"
      by (simp_all add: sized_def)
    obtain u' where u': "store (ucen orient) (int k) row 4 = Inr u'" "length u' = length (ucen orient)"
      using store_length [OF lv(1)] by blast
    obtain v' where v': "store (vcen orient) (int k) row 5 = Inr v'" "length v' = length (vcen orient)"
      using store_length [OF lv(2)] by blast
    obtain w' where w': "store (wcen orient) (int k) row 6 = Inr w'" "length w' = length (wcen orient)"
      using store_length [OF lv(3)] by blast
    show ?thesis
      using True sz x' y' z' u' v' w' store_ok [OF lt(1) row]
      by (simp add: read_row_def sized_def same_rest_def)
  qed
qed

lemma same_rest_trans: "same_rest a b \<Longrightarrow> same_rest b c \<Longrightarrow> same_rest a c"
  by (simp add: same_rest_def)

lemma take_Suc_update: "k < length xs \<Longrightarrow> take (Suc k) (xs[k := v]) = take k xs @ [v]"
  by (simp add: take_Suc_conv_app_nth)

lemma read_rows_ok:
  assumes "sized cfg N orient" and "k + length rs \<le> N" and "\<forall>row \<in> set rs. row \<noteq> []"
  shows "\<exists>orient'. read_rows cfg orient (int k + 1) rs = Inr orient' \<and> sized cfg N orient' \<and>
           same_rest orient orient' \<and>
           time orient' = take k (time orient) @ map hd rs @ drop (k + length rs) (time orient)"
  using assms
proof (induction rs arbitrary: orient k)
  case Nil
  then show ?case by (simp add: same_rest_def)
next
  case (Cons row rest)
  from Cons.prems have k: "k < N" and row: "row \<noteq> []" by simp_all
  obtain o1 where o1: "read_row cfg orient (int k + 1) row = Inr o1" "sized cfg N o1"
      "same_rest orient o1" "time o1 = (time orient)[k := hd row]"
    using read_row_ok [OF Cons.prems(1) k row] by blast
  have "\<exists>orient'. read_rows cfg o1 (int (Suc k) + 1) rest = Inr orient' \<and> sized cfg N orient' \<and>
           same_rest o1 orient' \<and>
           time orient' = take (Suc k) (time o1) @ map hd rest @ drop (Suc k + length rest) (time o1)"
    using o1(2) Cons.prems by (intro Cons.IH) simp_all
  then obtain o2 where o2: "read_rows cfg o1 (int (Suc k) + 1) rest = Inr o2" "sized cfg N o2"
      "same_rest o1 o2"
      "time o2 = take (Suc k) (time o1) @ map hd rest @ drop (Suc k + length rest) (time o1)"
    by blast
  have len: "k < length (time orient)"
    using Cons.prems(1) k by (simp add: sized_def)
  have "time o2 = take k (time orient) @ map hd (row # rest) @
          drop (k + length (row # rest)) (time orient)"
    using o2(4) o1(4) len by (simp add: take_Suc_update)
  moreover have "read_rows cfg orient (int k + 1) (row # rest) = Inr o2"
    using o1(1) o2(1) by (simp add: add.commute)
  ultimately show ?case
    using o2(2) same_rest_trans [OF o1(3) o2(3)] by blast
qed

lemma eventime_loop_ok:
  assumes "1 \<le> i" and "i \<le> length ts"
  shows "eventime_loop ts (int (length ts)) dt (int i) flag =
           Inr (flag \<and> (\<forall>j \<in> {i ..< length ts}. \<bar>ts ! j - ts ! (j - 1) - dt\<bar> \<le> dt / 10))"
  using assms
proof (induction "length ts - i" arbitrary: i flag)
  case 0
  then have "i = length ts" by simp
  then show ?case
    by (subst eventime_loop.simps) simp
next
  case (Suc d)
  then have lt: "i < length ts" by simp
  have step: "eventime_loop ts (int (length ts)) dt (int i) flag =
      eventime_loop ts (int (length ts)) dt (int (Suc i))
        (if \<bar>ts ! i - ts ! (i - 1) - dt\<bar> > dt / 10 then False else flag)"
    using lt Suc.prems(1)
    by (subst eventime_loop.simps) (simp add: rd_def add.commute nat_diff_distrib)
  have split: "{i ..< length ts} = insert i {Suc i ..< length ts}"
    using lt by auto
  have "eventime_loop ts (int (length ts)) dt (int (Suc i))
          (if \<bar>ts ! i - ts ! (i - 1) - dt\<bar> > dt / 10 then False else flag) =
        Inr ((if \<bar>ts ! i - ts ! (i - 1) - dt\<bar> > dt / 10 then False else flag) \<and>
             (\<forall>j \<in> {Suc i ..< length ts}. \<bar>ts ! j - ts ! (j - 1) - dt\<bar> \<le> dt / 10))"
    using Suc.hyps(2) lt by (intro Suc.hyps(1)) auto
  then show ?case
    unfolding step split by auto
qed

lemma read_series_ok:
  assumes hd: "header f = int (length (rows f))" and n2: "2 \<le> length (rows f)"
    and ne: "\<forall>row \<in> set (rows f). row \<noteq> []"
  shows "\<exists>orient'. read_series cfg f orient = Inr orient' \<and> sized cfg (length (rows f)) orient' \<and>
           time orient' = map hd (rows f) \<and> \<not> inertial orient' \<and>
           (eventime orient' \<longleftrightarrow> eventime orient \<and> evenly_spaced (map hd (rows f))) \<and>
           zerotimevelocities orient' = zerotimevelocities orient \<and>
           zerotimeintercepts orient' = zerotimeintercepts orient"
proof -
  define N where "N = length (rows f)"
  obtain o1 where o1: "read_header cfg (orient\<lparr>inertial := False\<rparr>) (header f) = Inr o1"
      "sized cfg N o1" "same_rest (orient\<lparr>inertial := False\<rparr>) o1"
    using read_header_ok [of "header f" cfg "orient\<lparr>inertial := False\<rparr>"] hd
    by (auto simp: N_def)
  have "\<exists>orient'. read_rows cfg o1 (int 0 + 1) (rows f) = Inr orient' \<and> sized cfg N orient' \<and>
           same_rest o1 orient' \<and>
           time orient' = take 0 (time o1) @ map hd (rows f) @ drop (0 + length (rows f)) (time o1)"
    using o1(2) ne by (intro read_rows_ok) (simp_all add: N_def)
  then obtain o2 where o2: "read_rows cfg o1 1 (rows f) = Inr o2" "sized cfg N o2"
      "same_rest o1 o2" "time o2 = map hd (rows f)"
    using o1(2) by (auto simp: sized_def N_def)
  have len: "length (time o2) = N" "NUMT o2 = int (length (time o2))"
    using o2(2) by (simp_all add: sized_def)
  have rd: "rd (time o2) 1 = Inr (time o2 ! 1)" "rd (time o2) 0 = Inr (time o2 ! 0)"
    using len n2 by (auto simp: rd_def N_def)
  have ev: "eventime_loop (time o2) (NUMT o2) (time o2 ! 1 - time o2 ! 0) (int 2) (eventime o2) =
      Inr (eventime o2 \<and> (\<forall>j \<in> {2 ..< length (time o2)}.
          \<bar>time o2 ! j - time o2 ! (j - 1) - (time o2 ! 1 - time o2 ! 0)\<bar> \<le> (time o2 ! 1 - time o2 ! 0) / 10))"
    unfolding len(2) using len(1) n2 by (intro eventime_loop_ok) (simp_all add: N_def)
  have flags: "eventime o2 = eventime orient" "inertial o2 = False"
      "zerotimevelocities o2 = zerotimevelocities orient"
      "zerotimeintercepts o2 = zerotimeintercepts orient"
    using o1(3) o2(3) by (simp_all add: same_rest_def)
  have res: "read_series cfg f orient =
      Inr (o2\<lparr>eventime := eventime o2 \<and> evenly_spaced (time o2)\<rparr>)"
    using o1(1) o2(1) rd ev by (simp add: read_series_def evenly_spaced_def)
  show ?thesis
    unfolding res using o2(2,4) flags by (simp add: sized_def N_def)
qed

lemma assign3_Inr:
  "3 \<le> length c \<Longrightarrow> \<exists>c'. assign3 c (Inr a) (Inr b) (Inr d) = Inr c' \<and> length c' = length c"
  by (auto simp: assign3_def wr_def)

lemma regression_keeps:
  assumes "regression orient accel nPoints s = Inr orient'"
  shows "time orient' = time orient \<and> eventime orient' = eventime orient \<and> NUMT orient' = NUMT orient"
  using assms unfolding regression_def Let_def ebind_def
  by (auto split: sum.splits if_splits)

lemma find_initial_velocity_keeps:
  assumes "find_initial_velocity orient accel nPoints = Inr orient'"
  shows "time orient' = time orient \<and> eventime orient' = eventime orient \<and> NUMT orient' = NUMT orient"
proof -
  from assms obtain s where "regression orient accel nPoints s = Inr orient'"
    unfolding find_initial_velocity_def Let_def ebind_def by (auto split: sum.splits)
  then show ?thesis by (rule regression_keeps)
qed

lemma zero_time_fit_keeps:
  assumes "zero_time_fit cfg orient = Inr orient'"
  shows "time orient' = time orient \<and> eventime orient' = eventime orient \<and> NUMT orient' = NUMT orient"
  using assms unfolding zero_time_fit_def Let_def ebind_def
  by (auto split: sum.splits if_splits dest!: find_initial_velocity_keeps)

lemma zero_time_fit_forward:
  assumes "\<not> backwards cfg" and "sized cfg N orient" and "1 \<le> N"
  shows "\<exists>orient'. zero_time_fit cfg orient = Inr orient'"
proof (cases "havevelocity cfg")
  case False
  then show ?thesis by (simp add: zero_time_fit_def)
next
  case True
  with assms(2,3) have "rd (ucen orient) 0 = Inr (ucen orient ! 0)"
      "rd (vcen orient) 0 = Inr (vcen orient ! 0)" "rd (wcen orient) 0 = Inr (wcen orient ! 0)"
    by (auto simp: sized_def rd_def)
  with True assms(1) show ?thesis
    by (simp add: zero_time_fit_def resize_def assign3_def wr_def)
qed

subsection \<open>The sums of the regression\<close>






subsection \<open>The scan of \<^verbatim>\<open>find_time_index\<close>\<close>

text \<open>
  Claim C4. On a strictly increasing time axis of at least two samples, for a query time
  \<open>q\<close> with \<open>T[0] \<le> q < T[n-1]\<close>, \<open>find_time_index\<close> returns the largest index \<open>i\<close> with
  \<open>T[i] \<le> q\<close> and the spacing \<open>T[i+1] - T[i]\<close> (and prints nothing).
\<close>

theorem find_time_index_largest:
  assumes inc: "sorted_wrt (<) (time orient)"
    and numt: "NUMT orient = int (length (time orient))"
    and n2: "2 \<le> length (time orient)"
    and lo: "time orient ! 0 \<le> q"
    and hi: "q < time orient ! (length (time orient) - 1)"
  shows "\<exists>i. i + 1 < length (time orient) \<and> time orient ! i \<le> q \<and>
             (\<forall>j < length (time orient). time orient ! j \<le> q \<longrightarrow> j \<le> i) \<and>
             find_time_index q orient = Inr (int i, time orient ! (i + 1) - time orient ! i, [])"
proof -
  define ts where "ts = time orient"
  define n where "n = length ts"
  define k where "k = (LEAST k. k < n \<and> q < ts ! k)"
  have ex: "n - 1 < n \<and> q < ts ! (n - 1)"
    using n2 hi by (simp add: ts_def n_def)
  have k: "k < n \<and> q < ts ! k"
    unfolding k_def by (rule LeastI [of "\<lambda>k. k < n \<and> q < ts ! k", OF ex])
  have below: "ts ! j \<le> q" if "j < k" for j
  proof -
    have "\<not> (j < n \<and> q < ts ! j)"
      using that unfolding k_def by (rule not_less_Least)
    moreover have "j < n" using that k by simp
    ultimately show ?thesis by simp
  qed
  have k0: "0 < k"
  proof (rule ccontr)
    assume "\<not> 0 < k"
    then have "k = 0" by simp
    with k lo show False by (simp add: ts_def)
  qed
  have loop: "find_time_index_loop q ts (int 0) = Inr (int k)"
    using k below by (intro loop_stops) (auto simp: n_def)
  have above: "j \<le> k - 1" if "j < n" "ts ! j \<le> q" for j
  proof (rule ccontr)
    assume "\<not> j \<le> k - 1"
    then have "k \<le> j" using k0 by simp
    then have "ts ! k \<le> ts ! j"
    proof (cases "k = j")
      case True
      then show ?thesis by simp
    next
      case False
      with \<open>k \<le> j\<close> have "k < j" by simp
      then have "ts ! k < ts ! j"
        using inc that(1) by (simp add: sorted_wrt_iff_nth_less ts_def n_def)
      then show ?thesis by simp
    qed
    with k that(2) show False by simp
  qed
  have res: "find_time_index q orient = Inr (int (k - 1), ts ! (k - 1 + 1) - ts ! (k - 1), [])"
    using loop k k0 numt
    by (simp add: find_time_index_def ts_def [symmetric] n_def [symmetric] Let_def rd_def
        nat_diff_distrib nat_add_distrib of_nat_diff)
  show ?thesis
  proof (intro exI [of _ "k - 1"] conjI allI impI)
    show "k - 1 + 1 < length (time orient)"
      using k k0 by (simp add: ts_def n_def)
    show "time orient ! (k - 1) \<le> q"
      using below [of "k - 1"] k0 by (simp add: ts_def)
    show "j \<le> k - 1" if "j < length (time orient)" "time orient ! j \<le> q" for j
      using above [of j] that by (simp add: ts_def n_def)
    show "find_time_index q orient =
          Inr (int (k - 1), time orient ! (k - 1 + 1) - time orient ! (k - 1), [])"
      using res by (simp add: ts_def)
  qed
qed

theorem find_time_index_largest_witness:
  "find_time_index (3 / 2) uneven_table = Inr (1, 3 / 2, [])"
proof -
  have "\<exists>i. i + 1 < length (time uneven_table) \<and> time uneven_table ! i \<le> 3 / 2 \<and>
             (\<forall>j < length (time uneven_table). time uneven_table ! j \<le> 3 / 2 \<longrightarrow> j \<le> i) \<and>
             find_time_index (3 / 2) uneven_table =
               Inr (int i, time uneven_table ! (i + 1) - time uneven_table ! i, [])"
    by (rule find_time_index_largest) (simp_all add: uneven_table_def)
  then obtain i where i: "i + 1 < 3" "time uneven_table ! i \<le> 3 / 2"
      "\<forall>j < 3. time uneven_table ! j \<le> 3 / 2 \<longrightarrow> j \<le> i"
      "find_time_index (3 / 2) uneven_table =
         Inr (int i, time uneven_table ! (i + 1) - time uneven_table ! i, [])"
    by (auto simp: uneven_table_def)
  from i(3) have "1 \<le> i" by (auto simp: uneven_table_def)
  with i(1) have "i = 1" by simp
  with i(4) show ?thesis by (simp add: uneven_table_def)
qed

text \<open>
  Claim C9. On a strictly increasing time axis, for a query time \<open>q \<ge> T[NUMT-1]\<close>, the
  scan of \<open>find_time_index\<close> passes the last element and reads \<open>time[NUMT]\<close>, outside
  the series: the call ends in that access, before the clamp after the loop is reached.
\<close>

theorem find_time_index_reads_past_end:
  assumes inc: "sorted_wrt (<) (time orient)"
    and numt: "NUMT orient = int (length (time orient))"
    and ne: "time orient \<noteq> []"
    and hi: "time orient ! (length (time orient) - 1) \<le> q"
  shows "find_time_index q orient = Inl (OutOfBounds (NUMT orient))"
proof -
  have all: "time orient ! j \<le> q" if "j < length (time orient)" for j
  proof (cases "j = length (time orient) - 1")
    case True
    with hi show ?thesis by simp
  next
    case False
    with that have "j < length (time orient) - 1" by simp
    then have "time orient ! j < time orient ! (length (time orient) - 1)"
      using inc ne by (simp add: sorted_wrt_iff_nth_less)
    with hi show ?thesis by simp
  qed
  have "find_time_index_loop q (time orient) (int 0) = Inl (OutOfBounds (int (length (time orient))))"
    using all by (intro loop_overruns) auto
  then show ?thesis
    by (simp add: find_time_index_def numt)
qed

theorem find_time_index_reads_past_end_witness:
  "find_time_index 3 uneven_table = Inl (OutOfBounds 3)"
  using find_time_index_reads_past_end [of uneven_table 3]
  by (simp add: uneven_table_def)

subsection \<open>The index of the evenly spaced axis\<close>

text \<open>
  Claim C3. The claim reads the index of the uniform policy as a floor. The source casts:
  \<^verbatim>\<open>(int)((desired_time - T[0])/dt)\<close> truncates toward zero. For every query time with
  \<open>-1 < (q - T[0])/dt < 0\<close> the index computed is 0, where the floor is \<open>-1\<close>: the
  orientation evaluators get index 0, and \<open>select_coefficient_time\<close> prints no
  "time prior to simulation start" warning.
\<close>

theorem uniform_index_truncates:
  assumes lo: "- 1 < (q - t0) / (t1 - t0)" and hi: "(q - t0) / (t1 - t0) < 0"
    and ev: "eventime orient" and ts: "time orient = t0 # t1 # rest"
    and tc: "t_coef coeftable = t0 # t1 # rest'" and n: "2 \<le> NUMT_coef coeftable"
  shows "orient_time_index q orient = Inr (0, t1 - t0, []) \<and>
         select_coefficient_index q coeftable = Inr (0, t1 - t0, []) \<and>
         \<lfloor>(q - t0) / (t1 - t0)\<rfloor> = - 1"
proof (intro conjI)
  have c: "cast_quot (q - t0) (t1 - t0) = Inr 0"
    using lo hi by (rule cast_quot_neg_fraction)
  show "orient_time_index q orient = Inr (0, t1 - t0, [])"
    using c ev ts by (simp add: orient_time_index_def rd_def)
  show "select_coefficient_index q coeftable = Inr (0, t1 - t0, [])"
    using c tc n by (simp add: select_coefficient_index_def rd_def)
  show "\<lfloor>(q - t0) / (t1 - t0)\<rfloor> = - 1"
    using lo hi by (simp add: floor_eq_iff)
qed

theorem uniform_index_truncates_witness:
  "orient_time_index (- 1 / 2) slope_table = Inr (0, 1, []) \<and>
   select_coefficient_index (- 1 / 2) coef_example = Inr (0, 1, []) \<and>
   \<lfloor>(- 1 / 2 - 0) / (1 - 0) :: real\<rfloor> = - 1"
  using uniform_index_truncates [of "- 1 / 2" 0 1 slope_table "[2]" coef_example "[2]"]
  by (simp add: slope_table_def coef_example_def)

subsection \<open>Clamps and their diagnostics\<close>

text \<open>
  Claim C2. The claim has every clamp of both resolvers print a diagnostic. In
  \<open>find_time_index\<close> the clamp at the low end prints nothing: for every query time before
  \<open>T[0]\<close> the scan stops at once, the index \<open>-1\<close> is reset to 0 and the log is empty.
  \<open>select_coefficient_time\<close> prints its warning in the same situation.
\<close>

theorem find_time_index_silent_low_clamp:
  assumes n2: "2 \<le> length (time orient)"
    and numt: "NUMT orient = int (length (time orient))"
    and lo: "q < time orient ! 0"
  shows "find_time_index_loop q (time orient) 0 = Inr 0 \<and>
         find_time_index q orient = Inr (0, time orient ! 1 - time orient ! 0, [])"
proof -
  have loop: "find_time_index_loop q (time orient) 0 = Inr 0"
    using n2 lo by (subst find_time_index_loop.simps) auto
  then show ?thesis
    using n2 numt by (auto simp: find_time_index_def rd_def)
qed

theorem find_time_index_silent_low_clamp_witness:
  "find_time_index_loop (- 1) (time uneven_table) 0 = Inr 0 \<and>
   find_time_index (- 1) uneven_table = Inr (0, 1, []) \<and>
   select_coefficient_index (- 1) coef_example = Inr (0, 1, [CoefTimePriorToStart])"
  using find_time_index_silent_low_clamp [of uneven_table "- 1"]
  by (simp add: uneven_table_def coef_example_def select_coefficient_index_def rd_def
      cast_quot_def cast_int_def)

subsection \<open>Queries before the first stored time\<close>

text \<open>
  Claim C1. The claim has every query before \<open>T[0]\<close>, on a table with velocities, answered
  by the pre-simulation model. The evaluators take that branch only when the resolved
  index is negative. On the evenly spaced table loaded from \<open>slope_file\<close>, at
  \<open>q = -0.5\<close> the cast gives index 0, and both evaluators blend the first segment: the
  centre is \<open>-5\<close> where \<open>cen[0] + \<Delta>t \<cdot> zeroTimeSlope\<close> is \<open>-1.5\<close>, the velocity is 2 where
  \<open>zeroTimeSlope\<close> is 3. On the unevenly spaced table loaded from \<open>uneven_file\<close>, at
  \<open>q = -1\<close> \<open>find_time_index\<close> has already reset the index to 0: the centre is \<open>-10\<close>
  where the model gives \<open>-3\<close>, the velocity is 1 where \<open>zeroTimeSlope\<close> is 3.
\<close>

theorem presimulation_branch_missed:
  "read_orient default_config ''orient.txt'' (Some slope_file) (new_SphOrient 0) = Inr (slope_table, []) \<and>
   interpolate_centre default_config (- 1 / 2) slope_table [0, 0, 0] = Inr ([- 5, - 5, - 5], []) \<and>
   xcen slope_table ! 0 + (- 1 / 2 - time slope_table ! 0) * zerotimevelocities slope_table ! 0 = - 3 / 2 \<and>
   interpolate_velocity_centre default_config (- 1 / 2) slope_table [0, 0, 0] = Inr ([2, 2, 2], []) \<and>
   zerotimevelocities slope_table ! 0 = 3 \<and>
   read_orient default_config ''orient.txt'' (Some uneven_file) (new_SphOrient 0) = Inr (uneven_table, []) \<and>
   interpolate_centre default_config (- 1) uneven_table [0, 0, 0] = Inr ([- 10, - 10, - 10], []) \<and>
   xcen uneven_table ! 0 + (- 1 - time uneven_table ! 0) * zerotimevelocities uneven_table ! 0 = - 3 \<and>
   interpolate_velocity_centre default_config (- 1) uneven_table [0, 0, 0] = Inr ([1, 1, 1], []) \<and>
   zerotimevelocities uneven_table ! 0 = 3"
proof (intro conjI)
  show "read_orient default_config ''orient.txt'' (Some slope_file) (new_SphOrient 0) = Inr (slope_table, [])"
    by (rule slope_table_loaded)
  show "read_orient default_config ''orient.txt'' (Some uneven_file) (new_SphOrient 0) = Inr (uneven_table, [])"
    by (rule uneven_table_loaded)
  show "interpolate_centre default_config (- 1 / 2) slope_table [0, 0, 0] = Inr ([- 5, - 5, - 5], [])"
    by (simp add: eval_simps slope_table_def cast_quot_neg_fraction)
  show "interpolate_velocity_centre default_config (- 1 / 2) slope_table [0, 0, 0] = Inr ([2, 2, 2], [])"
    by (simp add: eval_simps slope_table_def cast_quot_neg_fraction)
  show "interpolate_centre default_config (- 1) uneven_table [0, 0, 0] = Inr ([- 10, - 10, - 10], [])"
    by (simp add: eval_simps uneven_table_def)
  show "interpolate_velocity_centre default_config (- 1) uneven_table [0, 0, 0] = Inr ([1, 1, 1], [])"
    by (simp add: eval_simps uneven_table_def)
qed (simp_all add: slope_table_def uneven_table_def)

text \<open>
  Claim C5, as stated: on the axis \<open>[0, 1, 2]\<close> with values \<open>[0, 10, 20]\<close> the orientation
  centre evaluator returns \<open>-10\<close> at \<open>q = -1\<close>. It does not on the table loaded from
  \<open>series_file\<close>: with velocities the pre-simulation branch returns
  \<open>cen[0] + \<Delta>t \<cdot> zeroTimeSlope = 0\<close>, without velocities the unclamped index \<open>-1\<close>
  is used to read \<open>time[-1]\<close>.
\<close>

theorem orientation_low_end_counterexample:
  "read_orient default_config ''orient.txt'' (Some series_file) (new_SphOrient 0) = Inr (series_table, []) \<and>
   interpolate_centre default_config (- 1) series_table [0, 0, 0] = Inr ([0, 0, 0], []) \<and>
   interpolate_centre default_config (- 1) series_table [0, 0, 0] \<noteq> Inr ([- 10, - 10, - 10], []) \<and>
   interpolate_centre no_velocity_config (- 1) series_table [0, 0, 0] = Inl (OutOfBounds (- 1))"
proof (intro conjI)
  show "read_orient default_config ''orient.txt'' (Some series_file) (new_SphOrient 0) = Inr (series_table, [])"
    by (rule series_table_loaded)
  show eq: "interpolate_centre default_config (- 1) series_table [0, 0, 0] = Inr ([0, 0, 0], [])"
    by (simp add: eval_simps series_table_def cast_quot_def cast_int_def)
  show "interpolate_centre default_config (- 1) series_table [0, 0, 0] \<noteq> Inr ([- 10, - 10, - 10], [])"
    unfolding eq by simp
  show "interpolate_centre no_velocity_config (- 1) series_table [0, 0, 0] = Inl (OutOfBounds (- 1))"
    by (simp add: eval_simps series_table_def cast_quot_def cast_int_minus_one no_velocity_config_def)
qed

text \<open>
  Claim C5, amended. On the axis \<open>[0, 1, 2]\<close> with values \<open>[0, 10, 20]\<close>: the coefficient
  evaluator returns \<open>-10\<close> at \<open>q = -1\<close> and 30 at \<open>q = 3\<close>, each with its warning; the
  orientation centre evaluator returns 30 at \<open>q = 3\<close>; at \<open>q = -1\<close>, with velocity data
  and no acceleration term, it returns \<open>cen[0] + (q - T[0]) \<cdot> zeroTimeSlope\<close>, that is
  \<open>- zeroTimeSlope\<close>, on each axis.
\<close>

theorem boundary_slope_extrapolation:
  assumes ev: "eventime orient" and numt: "NUMT orient = 3" and ts: "time orient = [0, 1, 2]"
    and x: "xcen orient = [0, 10, 20]" and y: "ycen orient = [0, 10, 20]"
    and z: "zcen orient = [0, 10, 20]"
  shows "select_coefficient_time (- 1) coef_example = Inr ([[- 10]], [CoefTimePriorToStart]) \<and>
         select_coefficient_time 3 coef_example = Inr ([[30]], [CoefTimeAfterEnd]) \<and>
         interpolate_centre cfg 3 orient [c0, c1, c2] = Inr ([30, 30, 30], []) \<and>
         (havevelocity cfg \<and> \<not> backwardsaccel cfg \<and> zerotimevelocities orient = [v0, v1, v2] \<longrightarrow>
            interpolate_centre cfg (- 1) orient [c0, c1, c2] = Inr ([0 - v0, 0 - v1, 0 - v2], []))"
proof (intro conjI impI)
  show "select_coefficient_time (- 1) coef_example = Inr ([[- 10]], [CoefTimePriorToStart])"
    by (simp add: select_coefficient_time_def select_coefficient_index_def eval_simps
        coef_example_def cast_quot_def cast_int_def)
  show "select_coefficient_time 3 coef_example = Inr ([[30]], [CoefTimeAfterEnd])"
    by (simp add: select_coefficient_time_def select_coefficient_index_def eval_simps
        coef_example_def cast_quot_def cast_int_def)
  show "interpolate_centre cfg 3 orient [c0, c1, c2] = Inr ([30, 30, 30], [])"
    using ev numt ts x y z by (simp add: eval_simps cast_quot_def cast_int_def)
  show "interpolate_centre cfg (- 1) orient [c0, c1, c2] = Inr ([0 - v0, 0 - v1, 0 - v2], [])"
    if "havevelocity cfg \<and> \<not> backwardsaccel cfg \<and> zerotimevelocities orient = [v0, v1, v2]"
    using that ev numt ts x y z by (simp add: eval_simps cast_quot_def cast_int_def)
qed

theorem boundary_slope_extrapolation_witness:
  "select_coefficient_time (- 1) coef_example = Inr ([[- 10]], [CoefTimePriorToStart]) \<and>
   select_coefficient_time 3 coef_example = Inr ([[30]], [CoefTimeAfterEnd]) \<and>
   interpolate_centre default_config 3 slope_table [0, 0, 0] = Inr ([30, 30, 30], []) \<and>
   interpolate_centre default_config (- 1) slope_table [0, 0, 0] = Inr ([- 3, - 3, - 3], [])"
  using boundary_slope_extrapolation [of slope_table default_config 0 0 0 3 3 3]
  by (simp add: slope_table_def default_config_def)

subsection \<open>The inertial default\<close>

text \<open>
  Claim C10. With an empty orientation file path the loader returns the table unchanged
  (after its notice), so a table that is inertial, as a new one is, stays inertial; and on
  an inertial table \<open>return_centre\<close> and \<open>return_vel_centre\<close> give \<open>(0, 0, 0)\<close> for
  every query time, whatever the series hold: also on a table whose series are all empty,
  where any access to one would be out of range.
\<close>

theorem inertial_default:
  assumes "inertial orient"
  shows "read_orient cfg [] infile orient = Inr (orient, [NoOrientFile]) \<and>
         return_centre cfg q orient [c0, c1, c2] = Inr ([0, 0, 0], []) \<and>
         return_vel_centre cfg q orient [v0, v1, v2] = Inr ([0, 0, 0], [])"
  using assms by (simp add: read_orient_def return_centre_def return_vel_centre_def assign3_def wr_def)

theorem inertial_default_witness:
  "inertial (new_SphOrient 0) \<and>
   read_orient default_config [] None (new_SphOrient 0) = Inr (new_SphOrient 0, [NoOrientFile]) \<and>
   return_centre default_config 7 (new_SphOrient 0) [1, 2, 3] = Inr ([0, 0, 0], []) \<and>
   return_vel_centre default_config 7 (new_SphOrient 0) [4, 5, 6] = Inr ([0, 0, 0], [])"
  using inertial_default [of "new_SphOrient 0" default_config None 7 1 2 3 4 5 6]
  by (simp add: new_SphOrient_def)

subsection \<open>The regression window\<close>

text \<open>
  Claim C8. \<open>find_initial_velocity\<close> sums the first \<open>nPoints\<close> elements of the time
  series and of the chosen channel without comparing \<open>nPoints\<close> with the length of the
  series: on every table with \<open>NUMT < nPoints\<close> it reads \<open>time[NUMT]\<close>, past the stored
  series. The loader calls it with \<open>nPoints = 2000\<close> when backward extrapolation is
  enabled, so loading the three-line file \<open>slope_file\<close> ends in that read.
\<close>

theorem find_initial_velocity_reads_past_series:
  assumes numt: "NUMT orient = int (length (time orient))"
    and lens: "length (xcen orient) = length (time orient)" "length (ycen orient) = length (time orient)"
      "length (zcen orient) = length (time orient)" "length (ucen orient) = length (time orient)"
      "length (vcen orient) = length (time orient)" "length (wcen orient) = length (time orient)"
    and short: "NUMT orient < nPoints"
  shows "find_initial_velocity orient accel nPoints = Inl (OutOfBounds (NUMT orient))"
proof -
  have "sums_loop (time orient) (if accel then ucen orient else xcen orient)
          (if accel then vcen orient else ycen orient) (if accel then wcen orient else zcen orient)
          nPoints (int 0) zero_sums = Inl (OutOfBounds (int (length (time orient))))"
    using lens short numt by (intro sums_loop_overruns) auto
  then show ?thesis
    by (simp add: find_initial_velocity_def numt Let_def)
qed

theorem find_initial_velocity_reads_past_series_witness:
  "NUMT slope_table < 2000 \<and>
   find_initial_velocity slope_table False 2000 = Inl (OutOfBounds 3) \<and>
   find_initial_velocity slope_table True 2000 = Inl (OutOfBounds 3) \<and>
   read_orient backwards_config ''orient.txt'' (Some slope_file) (new_SphOrient 0) = Inl (OutOfBounds 3)"
proof -
  have a: "find_initial_velocity slope_table accel 2000 = Inl (OutOfBounds 3)" for accel
    using find_initial_velocity_reads_past_series [of slope_table 2000 accel]
    by (simp add: slope_table_def)
  have b: "find_initial_velocity (slope_table\<lparr>zerotimevelocities := [0, 0, 0]\<rparr>) False 2000 = Inl (OutOfBounds 3)"
    using find_initial_velocity_reads_past_series [of "slope_table\<lparr>zerotimevelocities := [0, 0, 0]\<rparr>" 2000 False]
    by (simp add: slope_table_def)
  have "read_orient backwards_config ''orient.txt'' (Some slope_file) (new_SphOrient 0) =
        ebind (find_initial_velocity (slope_table\<lparr>zerotimevelocities := [0, 0, 0]\<rparr>) False 2000)
          (\<lambda>orient. Inr (orient, []))"
    by (simp add: load_simps slope_file_def slope_table_def backwards_config_def)
  with a b show ?thesis by (simp add: slope_table_def)
qed

subsection \<open>The spacing check of the loader\<close>

text \<open>
  Claim C7. Loading into a new table (whose flag is true) a file of \<open>n \<ge> 2\<close> data lines,
  \<open>n\<close> as in its header, each line starting with its time: the parse gives the time axis
  of the file, and \<open>eventime\<close> is true exactly when every spacing \<open>T[i] - T[i-1]\<close>,
  \<open>2 \<le> i \<le> n-1\<close>, is within \<open>dt/10\<close> of \<open>dt = T[1] - T[0]\<close>. Whatever \<open>read_orient\<close>
  returns has that axis and that flag, and it does return when backward extrapolation is
  off. The axis \<open>[0, 1, 2.5]\<close> loads with the flag false, the axis \<open>[0, 1, 2, 3]\<close> with the
  flag true.
\<close>

theorem eventime_after_load:
  assumes path: "orient_file \<noteq> []" and hd: "header f = int (length (rows f))"
    and n2: "2 \<le> length (rows f)" and ne: "\<forall>row \<in> set (rows f). row \<noteq> []"
    and fresh: "eventime orient"
  shows "\<exists>o1. read_series cfg f orient = Inr o1 \<and> time o1 = map hd (rows f) \<and> NUMT o1 = header f \<and>
           (eventime o1 \<longleftrightarrow> evenly_spaced (time o1)) \<and>
           (\<forall>orient' log. read_orient cfg orient_file (Some f) orient = Inr (orient', log) \<longrightarrow>
              time orient' = time o1 \<and> NUMT orient' = NUMT o1 \<and> eventime orient' = eventime o1) \<and>
           (\<not> backwards cfg \<longrightarrow> (\<exists>orient'. read_orient cfg orient_file (Some f) orient = Inr (orient', [])))"
proof -
  obtain o1 where o1: "read_series cfg f orient = Inr o1" "sized cfg (length (rows f)) o1"
      "time o1 = map hd (rows f)"
      "eventime o1 \<longleftrightarrow> eventime orient \<and> evenly_spaced (map hd (rows f))"
    using read_series_ok [OF hd n2 ne, of cfg orient] by blast
  have ro: "read_orient cfg orient_file (Some f) orient =
      ebind (zero_time_fit cfg o1) (\<lambda>orient. Inr (orient, []))"
    using path o1(1) by (simp add: read_orient_def)
  have keeps: "time orient' = time o1 \<and> NUMT orient' = NUMT o1 \<and> eventime orient' = eventime o1"
    if "read_orient cfg orient_file (Some f) orient = Inr (orient', log)" for orient' log
  proof -
    from that ro have "zero_time_fit cfg o1 = Inr orient'"
      by (auto simp: ebind_def split: sum.splits)
    then show ?thesis
      using zero_time_fit_keeps by blast
  qed
  have forward: "\<exists>orient'. read_orient cfg orient_file (Some f) orient = Inr (orient', [])"
    if nb: "\<not> backwards cfg"
  proof -
    obtain orient' where "zero_time_fit cfg o1 = Inr orient'"
      using zero_time_fit_forward [OF nb o1(2)] n2 by auto
    with ro show ?thesis by simp
  qed
  have numt: "NUMT o1 = header f"
    using o1(2) hd by (simp add: sized_def)
  have flag: "eventime o1 \<longleftrightarrow> evenly_spaced (time o1)"
    using o1(3,4) fresh by simp
  from o1(1,3) numt flag keeps forward show ?thesis
    by blast
qed

theorem eventime_after_load_witness:
  "(\<exists>orient'. read_orient default_config ''orient.txt'' (Some uneven_file) (new_SphOrient 0) = Inr (orient', []) \<and>
      time orient' = [0, 1, 5 / 2] \<and> \<not> eventime orient') \<and>
   (\<exists>orient'. read_orient default_config ''orient.txt'' (Some even4_file) (new_SphOrient 0) = Inr (orient', []) \<and>
      time orient' = [0, 1, 2, 3] \<and> eventime orient')"
proof (rule conjI)
  have sp: "\<not> evenly_spaced [0, 1, 5 / 2]"
  proof
    assume "evenly_spaced [0, 1, 5 / 2]"
    then have "\<bar>[0, 1, 5 / 2 :: real] ! 2 - [0, 1, 5 / 2] ! (2 - 1) - ([0, 1, 5 / 2] ! 1 - [0, 1, 5 / 2] ! 0)\<bar>
        \<le> ([0, 1, 5 / 2] ! 1 - [0, 1, 5 / 2] ! 0) / 10"
      unfolding evenly_spaced_def by (rule bspec) simp
    then show False by simp
  qed
  have nb: "\<not> backwards default_config"
    by (simp add: default_config_def)
  have "\<exists>o1. read_series default_config uneven_file (new_SphOrient 0) = Inr o1 \<and>
           time o1 = map hd (rows uneven_file) \<and> NUMT o1 = header uneven_file \<and>
           (eventime o1 \<longleftrightarrow> evenly_spaced (time o1)) \<and>
           (\<forall>orient' log. read_orient default_config ''orient.txt'' (Some uneven_file) (new_SphOrient 0) = Inr (orient', log) \<longrightarrow>
              time orient' = time o1 \<and> NUMT orient' = NUMT o1 \<and> eventime orient' = eventime o1) \<and>
           (\<not> backwards default_config \<longrightarrow>
              (\<exists>orient'. read_orient default_config ''orient.txt'' (Some uneven_file) (new_SphOrient 0) = Inr (orient', [])))"
    by (rule eventime_after_load) (simp_all add: uneven_file_def new_SphOrient_def)
  then obtain o1 :: SphOrient where o1: "time o1 = map hd (rows uneven_file)"
      "eventime o1 \<longleftrightarrow> evenly_spaced (time o1)"
      and keeps: "\<forall>orient' log. read_orient default_config ''orient.txt'' (Some uneven_file) (new_SphOrient 0) = Inr (orient', log) \<longrightarrow>
         time orient' = time o1 \<and> NUMT orient' = NUMT o1 \<and> eventime orient' = eventime o1"
      and loads: "\<not> backwards default_config \<longrightarrow>
         (\<exists>orient'. read_orient default_config ''orient.txt'' (Some uneven_file) (new_SphOrient 0) = Inr (orient', []))"
    by blast
  from loads nb obtain orient' where
    l: "read_orient default_config ''orient.txt'' (Some uneven_file) (new_SphOrient 0) = Inr (orient', [])"
    by blast
  with keeps have k: "time orient' = time o1" "eventime orient' = eventime o1"
    by simp_all
  have "time o1 = [0, 1, 5 / 2]"
    using o1(1) by (simp add: uneven_file_def)
  with o1 k sp have "time orient' = [0, 1, 5 / 2] \<and> \<not> eventime orient'"
    by simp
  with l show "\<exists>orient'. read_orient default_config ''orient.txt'' (Some uneven_file) (new_SphOrient 0) = Inr (orient', []) \<and>
      time orient' = [0, 1, 5 / 2] \<and> \<not> eventime orient'"
    by blast
next
  have "{2 ..< length [0, 1, 2, 3 :: real]} = {2, 3}"
    by auto
  then have sp: "evenly_spaced [0, 1, 2, 3]"
    by (simp add: evenly_spaced_def)
  have nb: "\<not> backwards default_config"
    by (simp add: default_config_def)
  have "\<exists>o1. read_series default_config even4_file (new_SphOrient 0) = Inr o1 \<and>
           time o1 = map hd (rows even4_file) \<and> NUMT o1 = header even4_file \<and>
           (eventime o1 \<longleftrightarrow> evenly_spaced (time o1)) \<and>
           (\<forall>orient' log. read_orient default_config ''orient.txt'' (Some even4_file) (new_SphOrient 0) = Inr (orient', log) \<longrightarrow>
              time orient' = time o1 \<and> NUMT orient' = NUMT o1 \<and> eventime orient' = eventime o1) \<and>
           (\<not> backwards default_config \<longrightarrow>
              (\<exists>orient'. read_orient default_config ''orient.txt'' (Some even4_file) (new_SphOrient 0) = Inr (orient', [])))"
    by (rule eventime_after_load) (simp_all add: even4_file_def new_SphOrient_def)
  then obtain o1 :: SphOrient where o1: "time o1 = map hd (rows even4_file)"
      "eventime o1 \<longleftrightarrow> evenly_spaced (time o1)"
      and keeps: "\<forall>orient' log. read_orient default_config ''orient.txt'' (Some even4_file) (new_SphOrient 0) = Inr (orient', log) \<longrightarrow>
         time orient' = time o1 \<and> NUMT orient' = NUMT o1 \<and> eventime orient' = eventime o1"
      and loads: "\<not> backwards default_config \<longrightarrow>
         (\<exists>orient'. read_orient default_config ''orient.txt'' (Some even4_file) (new_SphOrient 0) = Inr (orient', []))"
    by blast
  from loads nb obtain orient' where
    l: "read_orient default_config ''orient.txt'' (Some even4_file) (new_SphOrient 0) = Inr (orient', [])"
    by blast
  with keeps have k: "time orient' = time o1" "eventime orient' = eventime o1"
    by simp_all
  have "time o1 = [0, 1, 2, 3]"
    using o1(1) by (simp add: even4_file_def)
  with o1 k sp have "time orient' = [0, 1, 2, 3] \<and> eventime orient'"
    by simp
  with l show "\<exists>orient'. read_orient default_config ''orient.txt'' (Some even4_file) (new_SphOrient 0) = Inr (orient', []) \<and>
      time orient' = [0, 1, 2, 3] \<and> eventime orient'"
    by blast
qed



end
